theory Spec2Isabelle
  imports Main
begin

section \<open>JavaScript values\<close>

text \<open>
  The values that travel through \<^verbatim>\<open>withSlate.ts\<close> untyped (\<^verbatim>\<open>any\<close>): option values,
  ids, keys, the api and transforms namespaces. A function value is a closure
  identified by a number; the only place a closure is called with a state is the
  store's whole-state replacement, which receives the interpretation of closures
  as a parameter. Numbers are carried around and never computed with, so \<open>int\<close>
  stands for them.
\<close>

datatype jsval =
    JUndefined
  | JNull
  | JBool bool
  | JNum int
  | JStr string
  | JFun nat
  | JArr "jsval list"
  | JObj "(string \<times> jsval) list"

text \<open>A plain object: its own properties, in insertion order.\<close>

type_synonym bag = "(string \<times> jsval) list"

text \<open>\<^verbatim>\<open>typeof v\<close>: \<^verbatim>\<open>null\<close> and arrays are objects.\<close>

fun typeof :: "jsval \<Rightarrow> string" where
  "typeof JUndefined = ''undefined''"
| "typeof JNull = ''object''"
| "typeof (JBool b) = ''boolean''"
| "typeof (JNum n) = ''number''"
| "typeof (JStr s) = ''string''"
| "typeof (JFun f) = ''function''"
| "typeof (JArr xs) = ''object''"
| "typeof (JObj b) = ''object''"

text \<open>\<^verbatim>\<open>a ?? b\<close>: \<open>b\<close> exactly when \<open>a\<close> is \<^verbatim>\<open>undefined\<close> or \<^verbatim>\<open>null\<close>.\<close>

definition nullish :: "jsval \<Rightarrow> bool" where
  "nullish v = (v = JUndefined \<or> v = JNull)"

definition coalesce :: "jsval \<Rightarrow> jsval \<Rightarrow> jsval" where
  "coalesce a b = (if nullish a then b else a)"

text \<open>\<^verbatim>\<open>obj[key]\<close> on a plain object: \<^verbatim>\<open>undefined\<close> for a property it does not own.\<close>

definition bag_get :: "bag \<Rightarrow> string \<Rightarrow> jsval" where
  "bag_get b k = (case map_of b k of None \<Rightarrow> JUndefined | Some v \<Rightarrow> v)"

text \<open>\<^verbatim>\<open>obj[key] = v\<close>, as a new object.\<close>

fun bag_put :: "bag \<Rightarrow> string \<Rightarrow> jsval \<Rightarrow> bag" where
  "bag_put [] k v = [(k, v)]"
| "bag_put ((k', v') # b) k v =
     (if k' = k then (k, v) # b else (k', v') # bag_put b k v)"

text \<open>\<^verbatim>\<open>Object.assign(obj, patch)\<close>, as a new object.\<close>

fun bag_merge :: "bag \<Rightarrow> bag \<Rightarrow> bag" where
  "bag_merge b [] = b"
| "bag_merge b ((k, v) # patch) = bag_merge (bag_put b k v) patch"

section \<open>Documents, selections, plugins, the editor\<close>

datatype node = Text string | Element string "node list"

record point =
  path :: "nat list"
  offset :: nat

record trange =
  anchor :: point
  focus :: point

text \<open>
  A reactive options store, as \<^verbatim>\<open>withSlate.ts\<close> uses one: an object \<^verbatim>\<open>store.get\<close>
  and an object \<^verbatim>\<open>store.set\<close>, both indexed by a key at run time
  (\<^verbatim>\<open>(store.get as any)[key]\<close>, \<^verbatim>\<open>(store.set as any)[key]\<close>) and both also read at
  fixed keys (\<^verbatim>\<open>get.state\<close>, \<^verbatim>\<open>set.mergeState\<close>, \<^verbatim>\<open>set.state\<close>). So each is a table
  from keys to functions. The state the store holds is mutable and shared by
  everybody who holds the store; it lives in the world under \<open>s_ref\<close>, the store's
  identity. A getter gets the call's arguments and the current state; a setter
  gets its argument and the current state and gives the next state.
\<close>

record store =
  s_ref :: nat
  s_get :: "string \<Rightarrow> (jsval list \<Rightarrow> bag \<Rightarrow> jsval) option"
  s_set :: "string \<Rightarrow> (jsval \<Rightarrow> bag \<Rightarrow> bag) option"

text \<open>
  A plugin (\<^verbatim>\<open>AnySlatePlugin\<close>, and \<^verbatim>\<open>Partial\<close> of it for a configuration): the
  fields this file reads or writes. \<open>p_options\<close> is \<open>None\<close> when the property is
  \<^verbatim>\<open>undefined\<close>; a capability the file only passes on is a \<open>jsval\<close>.
\<close>

datatype plugin = Plugin
  (p_key: string)
  (p_priority: "int option")
  (p_plugins: "plugin list")
  (p_api: jsval)
  (p_decorate: jsval)
  (p_extendEditor: jsval)
  (p_inject: jsval)
  (p_normalizeInitialValue: jsval)
  (p_options: "bag option")
  (p_override: jsval)
  (p_transforms: jsval)
  (p_optionsStore: "store option")

text \<open>
  The editor object: the properties \<^verbatim>\<open>withSlate\<close> assigns or reads, and the plugin
  registry, which \<^verbatim>\<open>resolvePlugins\<close> writes and \<^verbatim>\<open>getSlatePlugin\<close> reads.
  \<open>e_children\<close> is \<open>None\<close> when \<^verbatim>\<open>editor.children\<close> is \<^verbatim>\<open>undefined\<close>, \<open>e_selection\<close> is
  \<open>None\<close> when \<^verbatim>\<open>editor.selection\<close> is \<^verbatim>\<open>null\<close> or \<^verbatim>\<open>undefined\<close>, \<open>e_isFallback\<close> is
  \<open>None\<close> until it is assigned.
\<close>

record editor =
  e_id :: jsval
  e_key :: jsval
  e_isFallback :: "bool option"
  e_children :: "node list option"
  e_selection :: "trange option"
  e_api :: jsval
  e_transforms :: jsval
  e_plugins :: "(string \<times> plugin) list"

section \<open>The options of \<^verbatim>\<open>withSlate\<close>\<close>

text \<open>\<^verbatim>\<open>value?: V | string\<close> and \<^verbatim>\<open>autoSelect?: 'end' | 'start' | boolean\<close>.\<close>

datatype initial_value = MarkupString string | Tree "node list"

datatype auto_select = AutoEnd | AutoStart | AutoBool bool

text \<open>
  \<^verbatim>\<open>WithSlateOptions\<close>. An optional property is an \<open>option\<close>, or a \<open>jsval\<close> that may be
  \<open>JUndefined\<close>; \<open>o_plugins\<close> already has the default \<^verbatim>\<open>[]\<close> of the destructuring;
  \<open>o_selection\<close> is \<open>None\<close> for \<^verbatim>\<open>undefined\<close> and for \<^verbatim>\<open>null\<close>, which the code does not
  tell apart; \<open>o_shouldNormalizeEditor\<close> is \<open>False\<close> when absent. The last eight
  fields are the rest object \<^verbatim>\<open>pluginConfig\<close>.
\<close>

record withSlateOptions =
  o_autoSelect :: "auto_select option"
  o_id :: jsval
  o_maxLength :: "int option"
  o_plugins :: "plugin list"
  o_rootPlugin :: "(plugin \<Rightarrow> plugin) option"
  o_selection :: "trange option"
  o_shouldNormalizeEditor :: bool
  o_value :: "initial_value option"
  o_api :: jsval
  o_decorate :: jsval
  o_extendEditor :: jsval
  o_inject :: jsval
  o_normalizeInitialValue :: jsval
  o_options :: "bag option"
  o_override :: jsval
  o_transforms :: jsval

text \<open>JavaScript truthiness of \<^verbatim>\<open>value\<close> and of \<^verbatim>\<open>autoSelect\<close>.\<close>

fun truthy_value :: "initial_value option \<Rightarrow> bool" where
  "truthy_value None = False"
| "truthy_value (Some (MarkupString s)) = (s \<noteq> [])"
| "truthy_value (Some (Tree v)) = True"

fun truthy_autoSelect :: "auto_select option \<Rightarrow> bool" where
  "truthy_autoSelect None = False"
| "truthy_autoSelect (Some AutoEnd) = True"
| "truthy_autoSelect (Some AutoStart) = True"
| "truthy_autoSelect (Some (AutoBool b)) = b"

section \<open>Collaborators\<close>

text \<open>
  The functions \<^verbatim>\<open>withSlate.ts\<close> imports or reaches through \<^verbatim>\<open>editor.api\<close> are
  parameters of the model. Each returns normally; one that mutates the editor
  gives the editor it leaves behind.
\<close>

record collab =
  getSlatePlugin :: "editor \<Rightarrow> plugin \<Rightarrow> plugin"
  getCorePlugins :: "int option \<Rightarrow> plugin list \<Rightarrow> plugin list"
  createSlatePlugin :: "plugin \<Rightarrow> plugin"
  resolvePlugins :: "editor \<Rightarrow> plugin list \<Rightarrow> editor"
  html_deserialize :: "editor \<Rightarrow> string \<Rightarrow> node list"
  create_value :: "editor \<Rightarrow> node list"
  getStartPoint :: "editor \<Rightarrow> nat list \<Rightarrow> point"
  getEndPoint :: "editor \<Rightarrow> nat list \<Rightarrow> point"
  pipeNormalizeInitialValue :: "editor \<Rightarrow> editor"
  normalizeEditor :: "editor \<Rightarrow> bool \<Rightarrow> editor"

text \<open>The calls \<^verbatim>\<open>withSlate\<close> makes to its collaborators, in the order it makes them.\<close>

datatype call =
    GetCorePlugins "int option" "plugin list"
  | CreateSlatePlugin plugin
  | RootPlugin plugin
  | ResolvePlugins "plugin list"
  | HtmlDeserialize string
  | CreateValue
  | GetStartPoint "nat list"
  | GetEndPoint "nat list"
  | Select point
  | PipeNormalizeInitialValue
  | NormalizeEditor bool

fun isResolvePlugins :: "call \<Rightarrow> bool" where
  "isResolvePlugins (ResolvePlugins ps) = True"
| "isResolvePlugins _ = False"

section \<open>The option accessors installed on the editor\<close>

text \<open>
  What the accessors act on besides the editor: the state of every options store,
  by the store's identity, and the diagnostic channel, the (message, code) pairs
  handed to \<^verbatim>\<open>editor.api.debug.error\<close>.
\<close>

record world =
  stores :: "nat \<Rightarrow> bag"
  diagnostics :: "(string \<times> string) list"

text \<open>An exception that reaches the caller.\<close>

datatype error = TypeError

text \<open>
  Modelled from the spec: \<^verbatim>\<open>editor.api.debug.error\<close> is installed by a plugin that is
  not in this file. The spec's diagnostic collaborator \<^verbatim>\<open>reportError(message, code)\<close>
  reports and does not throw or abort the caller.
\<close>

definition debug_error :: "string \<Rightarrow> string \<Rightarrow> world \<Rightarrow> world" where
  "debug_error message code w = w\<lparr>diagnostics := diagnostics w @ [(message, code)]\<rparr>"

text \<open>Lines 114-115: both closures take no parameter.\<close>

definition getApi :: "editor \<Rightarrow> plugin \<Rightarrow> jsval" where
  "getApi e plugin = e_api e"

definition getTransforms :: "editor \<Rightarrow> plugin \<Rightarrow> jsval" where
  "getTransforms e plugin = e_transforms e"

text \<open>Lines 116 and 123-125.\<close>

definition getPlugin :: "collab \<Rightarrow> editor \<Rightarrow> plugin \<Rightarrow> plugin" where
  "getPlugin c e plugin = getSlatePlugin c e plugin"

definition getOptionsStore :: "collab \<Rightarrow> editor \<Rightarrow> plugin \<Rightarrow> store option" where
  "getOptionsStore c e plugin = p_optionsStore (getPlugin c e plugin)"

text \<open>
  Lines 126-132. Without a store the plugin's \<^verbatim>\<open>options\<close> property is returned as
  it is; with one, \<^verbatim>\<open>get.state\<close> is called, a \<^verbatim>\<open>TypeError\<close> when the store has none.
\<close>

definition getOptions :: "collab \<Rightarrow> editor \<Rightarrow> plugin \<Rightarrow> world \<Rightarrow> error + jsval" where
  "getOptions c e plugin w =
     (case getOptionsStore c e plugin of
        None \<Rightarrow>
          (case p_options (getPlugin c e plugin) of
             None \<Rightarrow> Inr JUndefined
           | Some b \<Rightarrow> Inr (JObj b))
      | Some s \<Rightarrow>
          (case s_get s ''state'' of
             None \<Rightarrow> Inl TypeError
           | Some g \<Rightarrow> Inr (g [] (stores w (s_ref s)))))"

text \<open>
  Lines 133-148. Reading a property of \<^verbatim>\<open>undefined\<close> options is a \<^verbatim>\<open>TypeError\<close>.
  The function falls off its end after the diagnostic, so it returns
  \<^verbatim>\<open>undefined\<close>.
\<close>

definition getOption ::
  "collab \<Rightarrow> editor \<Rightarrow> plugin \<Rightarrow> string \<Rightarrow> jsval list \<Rightarrow> world \<Rightarrow> error + (jsval \<times> world)" where
  "getOption c e plugin k args w =
     (case getOptionsStore c e plugin of
        None \<Rightarrow>
          (case p_options (getPlugin c e plugin) of
             None \<Rightarrow> Inl TypeError
           | Some b \<Rightarrow> Inr (bag_get b k, w))
      | Some s \<Rightarrow>
          (case s_get s k of
             Some getter \<Rightarrow> Inr (getter args (stores w (s_ref s)), w)
           | None \<Rightarrow>
               Inr (JUndefined,
                 debug_error
                   (''editor.getOption: '' @ k @ '' option is not defined in plugin ''
                      @ p_key plugin @ ''.'')
                   ''OPTION_UNDEFINED'' w)))"

text \<open>Lines 149-164.\<close>

definition setOption ::
  "collab \<Rightarrow> editor \<Rightarrow> plugin \<Rightarrow> string \<Rightarrow> jsval \<Rightarrow> world \<Rightarrow> error + world" where
  "setOption c e plugin k v w =
     (case getOptionsStore c e plugin of
        None \<Rightarrow> Inr w
      | Some s \<Rightarrow>
          (case s_set s k of
             Some setter \<Rightarrow>
               Inr (w\<lparr>stores := (stores w)(s_ref s := setter v (stores w (s_ref s)))\<rparr>)
           | None \<Rightarrow>
               Inr (debug_error
                      (''editor.setOption: '' @ k @ '' option is not defined in plugin ''
                         @ p_key plugin @ ''.'')
                      ''OPTION_UNDEFINED'' w)))"

text \<open>Lines 165-174.\<close>

definition setOptions ::
  "collab \<Rightarrow> editor \<Rightarrow> plugin \<Rightarrow> jsval \<Rightarrow> world \<Rightarrow> error + world" where
  "setOptions c e plugin options w =
     (case getOptionsStore c e plugin of
        None \<Rightarrow> Inr w
      | Some s \<Rightarrow>
          if typeof options = ''object'' then
            (case s_set s ''mergeState'' of
               None \<Rightarrow> Inl TypeError
             | Some mergeState \<Rightarrow>
                 Inr (w\<lparr>stores := (stores w)(s_ref s := mergeState options (stores w (s_ref s)))\<rparr>))
          else if typeof options = ''function'' then
            (case s_set s ''state'' of
               None \<Rightarrow> Inl TypeError
             | Some setState \<Rightarrow>
                 Inr (w\<lparr>stores := (stores w)(s_ref s := setState options (stores w (s_ref s)))\<rparr>))
          else Inr w)"

section \<open>The operations of a reactive store\<close>

text \<open>
  Modelled from the spec: the store library is not in this file. The spec's
  options store exposes a state getter, named field getters, named field setters,
  a bulk-merge operation and a whole-state replace operation; \<^verbatim>\<open>withSlate.ts\<close>
  reaches them as \<^verbatim>\<open>get.state\<close>, \<^verbatim>\<open>get[key]\<close>, \<^verbatim>\<open>set[key]\<close>, \<^verbatim>\<open>set.mergeState\<close>
  and \<^verbatim>\<open>set.state\<close>. The bulk merge puts the fields of a mapping into the state;
  the replacement makes the state what the given function returns for the current
  state, the function being the closure's interpretation \<open>ap\<close>. On an argument of
  another kind the spec defines neither, and the state is left as it is.
\<close>

definition stateGetter :: "jsval list \<Rightarrow> bag \<Rightarrow> jsval" where
  "stateGetter args st = JObj st"

definition fieldGetter :: "string \<Rightarrow> jsval list \<Rightarrow> bag \<Rightarrow> jsval" where
  "fieldGetter k args st = bag_get st k"

definition fieldSetter :: "string \<Rightarrow> jsval \<Rightarrow> bag \<Rightarrow> bag" where
  "fieldSetter k v st = bag_put st k v"

definition mergeState :: "jsval \<Rightarrow> bag \<Rightarrow> bag" where
  "mergeState v st = (case v of JObj patch \<Rightarrow> bag_merge st patch | _ \<Rightarrow> st)"

definition setState :: "(nat \<Rightarrow> bag \<Rightarrow> bag) \<Rightarrow> jsval \<Rightarrow> bag \<Rightarrow> bag" where
  "setState ap v st = (case v of JFun f \<Rightarrow> ap f st | _ \<Rightarrow> st)"

section \<open>Construction: \<^verbatim>\<open>withSlate\<close>\<close>

text \<open>
  \<^verbatim>\<open>withSlate\<close> is straight-line code over one editor object. The model passes the
  editor along together with the calls made so far, and is cut at the places the
  steps of the construction meet. The \<^verbatim>\<open>console.time\<close> calls are left out.
\<close>

record run =
  r_ed :: editor
  r_calls :: "call list"

text \<open>
  Lines 107-112. \<open>rnd\<close> is what \<^verbatim>\<open>Math.random()\<close> returns if it is called, which
  \<^verbatim>\<open>??\<close> does only for a nullish key.
\<close>

definition assignIdentity :: "jsval \<Rightarrow> withSlateOptions \<Rightarrow> editor \<Rightarrow> editor" where
  "assignIdentity rnd opts e =
     e\<lparr>e_id := coalesce (o_id opts) (e_id e),
       e_key := coalesce (e_key e) rnd,
       e_isFallback := Some False\<rparr>"

text \<open>
  Lines 176-186: the object handed to \<^verbatim>\<open>createSlatePlugin\<close>. The rest object
  \<^verbatim>\<open>pluginConfig\<close> is spread after \<^verbatim>\<open>key\<close> and \<^verbatim>\<open>priority\<close> and has neither (its type
  is a \<^verbatim>\<open>Pick\<close> of the eight capability fields); \<^verbatim>\<open>plugins\<close> comes last.
\<close>

definition rootConfig :: "collab \<Rightarrow> withSlateOptions \<Rightarrow> plugin" where
  "rootConfig c opts =
     Plugin ''root'' (Some 10000)
       (getCorePlugins c (o_maxLength opts) (o_plugins opts) @ o_plugins opts)
       (o_api opts) (o_decorate opts) (o_extendEditor opts) (o_inject opts)
       (o_normalizeInitialValue opts) (o_options opts) (o_override opts)
       (o_transforms opts) None"

text \<open>Lines 181-191: \<^verbatim>\<open>rootPluginInstance\<close> as \<^verbatim>\<open>resolvePlugins\<close> receives it.\<close>

definition rootPluginInstance :: "collab \<Rightarrow> withSlateOptions \<Rightarrow> plugin" where
  "rootPluginInstance c opts =
     (case o_rootPlugin opts of
        None \<Rightarrow> createSlatePlugin c (rootConfig c opts)
      | Some rootPlugin \<Rightarrow> rootPlugin (createSlatePlugin c (rootConfig c opts)))"

definition assemblyCalls :: "collab \<Rightarrow> withSlateOptions \<Rightarrow> call list" where
  "assemblyCalls c opts =
     [GetCorePlugins (o_maxLength opts) (o_plugins opts), CreateSlatePlugin (rootConfig c opts)]
     @ (case o_rootPlugin opts of
          None \<Rightarrow> []
        | Some rootPlugin \<Rightarrow> [RootPlugin (createSlatePlugin c (rootConfig c opts))])"

text \<open>Lines 107-195: the editor once the root plugin is resolved.\<close>

definition resolved :: "collab \<Rightarrow> jsval \<Rightarrow> editor \<Rightarrow> withSlateOptions \<Rightarrow> run" where
  "resolved c rnd e opts =
     \<lparr>r_ed = resolvePlugins c (assignIdentity rnd opts e) [rootPluginInstance c opts],
      r_calls = assemblyCalls c opts @ [ResolvePlugins [rootPluginInstance c opts]]\<rparr>"

text \<open>Lines 197-201. An array is truthy, the empty one too.\<close>

definition seedValue :: "collab \<Rightarrow> withSlateOptions \<Rightarrow> run \<Rightarrow> run" where
  "seedValue c opts r =
     (case o_value opts of
        Some (MarkupString s) \<Rightarrow>
          \<lparr>r_ed = (r_ed r)\<lparr>e_children := Some (html_deserialize c (r_ed r) s)\<rparr>,
           r_calls = r_calls r @ [HtmlDeserialize s]\<rparr>
      | Some (Tree v) \<Rightarrow> r\<lparr>r_ed := (r_ed r)\<lparr>e_children := Some v\<rparr>\<rparr>
      | None \<Rightarrow> r)"

text \<open>
  Lines 202-204. \<^verbatim>\<open>editor.children?.length === 0\<close> is false for children that
  are \<^verbatim>\<open>undefined\<close>.
\<close>

definition seedFallback :: "collab \<Rightarrow> run \<Rightarrow> run" where
  "seedFallback c r =
     (if e_children (r_ed r) = Some [] then
        \<lparr>r_ed = (r_ed r)\<lparr>e_children := Some (create_value c (r_ed r))\<rparr>,
         r_calls = r_calls r @ [CreateValue]\<rparr>
      else r)"

text \<open>Lines 107-204: the editor once its content is seeded.\<close>

definition seeded :: "collab \<Rightarrow> jsval \<Rightarrow> editor \<Rightarrow> withSlateOptions \<Rightarrow> run" where
  "seeded c rnd e opts = seedFallback c (seedValue c opts (resolved c rnd e opts))"

text \<open>
  Modelled from the spec: \<^verbatim>\<open>select\<close> comes from the document-model package, which
  is not in this file. The spec's \<^verbatim>\<open>select(doc, point)\<close> installs a collapsed
  selection at the point.
\<close>

definition select :: "editor \<Rightarrow> point \<Rightarrow> editor" where
  "select e target = e\<lparr>e_selection := Some \<lparr>anchor = target, focus = target\<rparr>\<rparr>"

text \<open>Lines 205-212.\<close>

definition seedSelection :: "collab \<Rightarrow> withSlateOptions \<Rightarrow> run \<Rightarrow> run" where
  "seedSelection c opts r =
     (case o_selection opts of
        Some selection \<Rightarrow> r\<lparr>r_ed := (r_ed r)\<lparr>e_selection := Some selection\<rparr>\<rparr>
      | None \<Rightarrow>
          if truthy_autoSelect (o_autoSelect opts) then
            (if o_autoSelect opts = Some AutoStart then
               \<lparr>r_ed = select (r_ed r) (getStartPoint c (r_ed r) []),
                r_calls = r_calls r
                  @ [GetStartPoint [], Select (getStartPoint c (r_ed r) [])]\<rparr>
             else
               \<lparr>r_ed = select (r_ed r) (getEndPoint c (r_ed r) []),
                r_calls = r_calls r
                  @ [GetEndPoint [], Select (getEndPoint c (r_ed r) [])]\<rparr>)
          else r)"

text \<open>Lines 107-212: the editor once content and selection are seeded.\<close>

definition selected :: "collab \<Rightarrow> jsval \<Rightarrow> editor \<Rightarrow> withSlateOptions \<Rightarrow> run" where
  "selected c rnd e opts = seedSelection c opts (seeded c rnd e opts)"

text \<open>Lines 213-215.\<close>

definition normalizeInitial :: "collab \<Rightarrow> withSlateOptions \<Rightarrow> run \<Rightarrow> run" where
  "normalizeInitial c opts r =
     (if truthy_value (o_value opts) then
        \<lparr>r_ed = pipeNormalizeInitialValue c (r_ed r),
         r_calls = r_calls r @ [PipeNormalizeInitialValue]\<rparr>
      else r)"

text \<open>Lines 216-220.\<close>

definition normalizeFull :: "collab \<Rightarrow> withSlateOptions \<Rightarrow> run \<Rightarrow> run" where
  "normalizeFull c opts r =
     (if o_shouldNormalizeEditor opts then
        \<lparr>r_ed = normalizeEditor c (r_ed r) True,
         r_calls = r_calls r @ [NormalizeEditor True]\<rparr>
      else r)"

text \<open>Lines 88-225: the editor \<^verbatim>\<open>withSlate\<close> returns, and the calls it made.\<close>

definition withSlate :: "collab \<Rightarrow> jsval \<Rightarrow> editor \<Rightarrow> withSlateOptions \<Rightarrow> run" where
  "withSlate c rnd e opts =
     normalizeFull c opts (normalizeInitial c opts (selected c rnd e opts))"

text \<open>
  \<^verbatim>\<open>withSlate\<close> on the heap of editor objects: \<^verbatim>\<open>const editor = e\<close> names the object
  the caller passed, every assignment goes to it, and \<^verbatim>\<open>return editor\<close> gives the
  reference back.
\<close>

definition withSlate_obj ::
  "collab \<Rightarrow> jsval \<Rightarrow> nat \<Rightarrow> withSlateOptions \<Rightarrow> (nat \<Rightarrow> editor) \<Rightarrow> nat \<times> (nat \<Rightarrow> editor)" where
  "withSlate_obj c rnd ref opts heap =
     (ref, heap(ref := r_ed (withSlate c rnd (heap ref) opts)))"

section \<open>Sample inputs\<close>

text \<open>
  Concrete inputs on which the theorems below are run. Closure 0 is
  \<^verbatim>\<open>() => ({ open: true })\<close>. The sample store declares one field, \<^verbatim>\<open>open\<close>.
\<close>

definition sample_apply :: "nat \<Rightarrow> bag \<Rightarrow> bag" where
  "sample_apply f st = (if f = 0 then [(''open'', JBool True)] else st)"

definition sample_store :: store where
  "sample_store =
     \<lparr>s_ref = 0,
      s_get = (\<lambda>k. if k = ''state'' then Some stateGetter
                 else if k = ''open'' then Some (fieldGetter ''open'')
                 else None),
      s_set = (\<lambda>k. if k = ''state'' then Some (setState sample_apply)
                 else if k = ''mergeState'' then Some mergeState
                 else if k = ''open'' then Some (fieldSetter ''open'')
                 else None)\<rparr>"

definition reactive_plugin :: plugin where
  "reactive_plugin =
     Plugin ''toggle'' None [] JUndefined JUndefined JUndefined JUndefined JUndefined
       (Some [(''open'', JBool False)]) JUndefined JUndefined (Some sample_store)"

definition plain_plugin :: plugin where
  "plain_plugin =
     Plugin ''plain'' None [] JUndefined JUndefined JUndefined JUndefined JUndefined
       (Some [(''size'', JNum 3)]) JUndefined JUndefined None"

definition core_plugin :: plugin where
  "core_plugin =
     Plugin ''debug'' None [] JUndefined JUndefined JUndefined JUndefined JUndefined
       (Some []) JUndefined JUndefined None"

text \<open>A \<^verbatim>\<open>rootPlugin\<close> callback that lowers the priority and drops the children.\<close>

definition demote_root :: "plugin \<Rightarrow> plugin" where
  "demote_root p =
     Plugin (p_key p) (Some 1) [] (p_api p) (p_decorate p) (p_extendEditor p) (p_inject p)
       (p_normalizeInitialValue p) (p_options p) (p_override p) (p_transforms p)
       (p_optionsStore p)"

definition sample_collab :: collab where
  "sample_collab =
     \<lparr>getSlatePlugin =
        (\<lambda>e p. case map_of (e_plugins e) (p_key p) of None \<Rightarrow> p | Some q \<Rightarrow> q),
      getCorePlugins = (\<lambda>maxLength ps. [core_plugin]),
      createSlatePlugin = (\<lambda>p. p),
      resolvePlugins =
        (\<lambda>e ps. e\<lparr>e_plugins := map (\<lambda>p. (p_key p, p)) (concat (map p_plugins ps))\<rparr>),
      html_deserialize = (\<lambda>e s. if s = [] then [] else [Element ''p'' [Text s]]),
      create_value = (\<lambda>e. [Element ''p'' [Text []]]),
      getStartPoint = (\<lambda>e p. \<lparr>path = [0, 0], offset = 0\<rparr>),
      getEndPoint =
        (\<lambda>e p. \<lparr>path = [length (case e_children e of None \<Rightarrow> [] | Some v \<Rightarrow> v) - 1, 0],
                offset = 0\<rparr>),
      pipeNormalizeInitialValue = (\<lambda>e. e),
      normalizeEditor = (\<lambda>e force. e)\<rparr>"

definition sample_editor :: editor where
  "sample_editor =
     \<lparr>e_id = JNum 1, e_key = JUndefined, e_isFallback = None, e_children = Some [],
      e_selection = None, e_api = JObj [], e_transforms = JObj [],
      e_plugins = [(''toggle'', reactive_plugin), (''plain'', plain_plugin)]\<rparr>"

definition bare_editor :: editor where
  "bare_editor =
     \<lparr>e_id = JNum 2, e_key = JStr ''k'', e_isFallback = None, e_children = None,
      e_selection = None, e_api = JObj [], e_transforms = JObj [], e_plugins = []\<rparr>"

definition sample_world :: world where
  "sample_world = \<lparr>stores = (\<lambda>r. [(''open'', JBool False)]), diagnostics = []\<rparr>"

definition sample_options :: withSlateOptions where
  "sample_options =
     \<lparr>o_autoSelect = None, o_id = JUndefined, o_maxLength = None,
      o_plugins = [plain_plugin], o_rootPlugin = None, o_selection = None,
      o_shouldNormalizeEditor = False, o_value = None,
      o_api = JUndefined, o_decorate = JUndefined, o_extendEditor = JUndefined,
      o_inject = JUndefined, o_normalizeInitialValue = JUndefined, o_options = None,
      o_override = JUndefined, o_transforms = JUndefined\<rparr>"

section \<open>Facts about the model\<close>

lemma bag_get_put_same: "bag_get (bag_put b k v) k = v"
  by (induction b) (auto simp: bag_get_def)

lemma sample_lookup:
  "getOptionsStore sample_collab sample_editor reactive_plugin = Some sample_store"
  "getOptionsStore sample_collab sample_editor plain_plugin = None"
  "p_options (getPlugin sample_collab sample_editor plain_plugin) = Some [(''size'', JNum 3)]"
  "p_key reactive_plugin = ''toggle''"
  by (simp_all add: getOptionsStore_def getPlugin_def sample_collab_def sample_editor_def
      reactive_plugin_def plain_plugin_def)

text \<open>The calls each step of the construction adds.\<close>

lemma resolved_calls:
  "r_calls (resolved c rnd e opts)
     = assemblyCalls c opts @ [ResolvePlugins [rootPluginInstance c opts]]"
  by (simp add: resolved_def)

lemma seedValue_calls:
  "r_calls (seedValue c opts r)
     = r_calls r @ (case o_value opts of
                      Some (MarkupString s) \<Rightarrow> [HtmlDeserialize s]
                    | Some (Tree v) \<Rightarrow> []
                    | None \<Rightarrow> [])"
  by (simp add: seedValue_def split: option.splits initial_value.splits)

lemma seedFallback_calls:
  "r_calls (seedFallback c r)
     = r_calls r @ (if e_children (r_ed r) = Some [] then [CreateValue] else [])"
  by (simp add: seedFallback_def)

lemma seedSelection_calls:
  "r_calls (seedSelection c opts r)
     = r_calls r @
       (case o_selection opts of
          Some selection \<Rightarrow> []
        | None \<Rightarrow>
            if truthy_autoSelect (o_autoSelect opts) then
              (if o_autoSelect opts = Some AutoStart
               then [GetStartPoint [], Select (getStartPoint c (r_ed r) [])]
               else [GetEndPoint [], Select (getEndPoint c (r_ed r) [])])
            else [])"
  by (simp add: seedSelection_def split: option.splits)

lemma normalizeInitial_calls:
  "r_calls (normalizeInitial c opts r)
     = r_calls r @ (if truthy_value (o_value opts) then [PipeNormalizeInitialValue] else [])"
  by (simp add: normalizeInitial_def)

lemma normalizeFull_calls:
  "r_calls (normalizeFull c opts r)
     = r_calls r @ (if o_shouldNormalizeEditor opts then [NormalizeEditor True] else [])"
  by (simp add: normalizeFull_def)

lemmas step_calls =
  resolved_calls seedValue_calls seedFallback_calls seedSelection_calls
  normalizeInitial_calls normalizeFull_calls

lemma assemblyCalls_filter:
  "filter isResolvePlugins (assemblyCalls c opts) = []"
  "PipeNormalizeInitialValue \<notin> set (assemblyCalls c opts)"
  "CreateValue \<notin> set (assemblyCalls c opts)"
  by (simp_all add: assemblyCalls_def split: option.splits)

lemma selected_calls_no_normalization:
  "PipeNormalizeInitialValue \<notin> set (r_calls (selected c rnd e opts))"
  by (simp add: selected_def seeded_def step_calls assemblyCalls_filter
      split: option.splits initial_value.splits)

lemma withSlate_resolve_calls:
  "filter isResolvePlugins (r_calls (withSlate c rnd e opts))
     = [ResolvePlugins [rootPluginInstance c opts]]"
  by (simp add: withSlate_def selected_def seeded_def step_calls assemblyCalls_filter
      split: option.splits initial_value.splits)

lemma withSlate_createValue_calls:
  "CreateValue \<in> set (r_calls (withSlate c rnd e opts))
     \<longleftrightarrow> e_children (r_ed (seedValue c opts (resolved c rnd e opts))) = Some []"
  by (simp add: withSlate_def selected_def seeded_def step_calls assemblyCalls_filter
      split: option.splits initial_value.splits)

text \<open>What the seeding steps leave alone, and what selection seeding installs.\<close>

lemma seeded_selection:
  "e_selection (r_ed (seeded c rnd e opts)) = e_selection (r_ed (resolved c rnd e opts))"
  by (simp add: seeded_def seedFallback_def seedValue_def
      split: option.splits initial_value.splits)

lemma selected_children:
  "e_children (r_ed (selected c rnd e opts)) = e_children (r_ed (seeded c rnd e opts))"
  by (simp add: selected_def seedSelection_def select_def split: option.splits)

lemma normalization_selection:
  assumes "\<forall>x. e_selection (pipeNormalizeInitialValue c x) = e_selection x"
    and "\<forall>x. e_selection (normalizeEditor c x True) = e_selection x"
  shows "e_selection (r_ed (withSlate c rnd e opts))
           = e_selection (r_ed (selected c rnd e opts))"
  using assms by (simp add: withSlate_def normalizeFull_def normalizeInitial_def)

lemma selected_selection:
  "e_selection (r_ed (seedSelection c opts r)) =
    (case o_selection opts of
       Some selection \<Rightarrow> Some selection
     | None \<Rightarrow>
         (case o_autoSelect opts of
            Some AutoStart \<Rightarrow>
              Some \<lparr>anchor = getStartPoint c (r_ed r) [], focus = getStartPoint c (r_ed r) []\<rparr>
          | Some AutoEnd \<Rightarrow>
              Some \<lparr>anchor = getEndPoint c (r_ed r) [], focus = getEndPoint c (r_ed r) []\<rparr>
          | Some (AutoBool True) \<Rightarrow>
              Some \<lparr>anchor = getEndPoint c (r_ed r) [], focus = getEndPoint c (r_ed r) []\<rparr>
          | Some (AutoBool False) \<Rightarrow> e_selection (r_ed r)
          | None \<Rightarrow> e_selection (r_ed r)))"
  by (simp add: seedSelection_def select_def
      split: option.splits auto_select.splits bool.splits)

lemma seeded_children_empty_tree:
  assumes "o_value opts = Some (Tree [])"
  shows "e_children (r_ed (seeded c rnd e opts))
           = Some (create_value c ((r_ed (resolved c rnd e opts))\<lparr>e_children := Some []\<rparr>))"
  using assms by (simp add: seeded_def seedFallback_def seedValue_def)

lemma normalization_children:
  assumes "e_children (r_ed r) = Some d"
    and "\<forall>x. e_children x = Some d \<longrightarrow> e_children (pipeNormalizeInitialValue c x) = Some d"
    and "\<forall>x. e_children x = Some d \<longrightarrow> e_children (normalizeEditor c x True) = Some d"
  shows "e_children (r_ed (normalizeFull c opts (normalizeInitial c opts r))) = Some d"
  using assms by (simp add: normalizeFull_def normalizeInitial_def)

text \<open>Line 213: the pass is run exactly when \<^verbatim>\<open>value\<close> is truthy.\<close>

lemma normalization_runs_iff_truthy:
  "PipeNormalizeInitialValue \<in> set (r_calls (withSlate c rnd e opts))
     \<longleftrightarrow> truthy_value (o_value opts)"
  using selected_calls_no_normalization [of c rnd e opts]
  by (simp add: withSlate_def normalizeInitial_calls normalizeFull_calls)

text \<open>The seeding steps do not touch the identity fields.\<close>

lemma selected_identity:
  "e_id (r_ed (selected c rnd e opts)) = e_id (r_ed (resolved c rnd e opts))
   \<and> e_key (r_ed (selected c rnd e opts)) = e_key (r_ed (resolved c rnd e opts))
   \<and> e_isFallback (r_ed (selected c rnd e opts)) = e_isFallback (r_ed (resolved c rnd e opts))"
  by (simp add: selected_def seedSelection_def select_def seeded_def seedFallback_def
      seedValue_def split: option.splits initial_value.splits)

lemma normalization_identity:
  assumes "\<forall>x. e_id (pipeNormalizeInitialValue c x) = e_id x
             \<and> e_key (pipeNormalizeInitialValue c x) = e_key x
             \<and> e_isFallback (pipeNormalizeInitialValue c x) = e_isFallback x"
    and "\<forall>x. e_id (normalizeEditor c x True) = e_id x
             \<and> e_key (normalizeEditor c x True) = e_key x
             \<and> e_isFallback (normalizeEditor c x True) = e_isFallback x"
  shows "e_id (r_ed (normalizeFull c opts (normalizeInitial c opts r))) = e_id (r_ed r)
   \<and> e_key (r_ed (normalizeFull c opts (normalizeInitial c opts r))) = e_key (r_ed r)
   \<and> e_isFallback (r_ed (normalizeFull c opts (normalizeInitial c opts r)))
       = e_isFallback (r_ed r)"
  using assms by (simp add: normalizeFull_def normalizeInitial_def)

text \<open>The sample collaborators normalise nothing.\<close>

lemma sample_frames:
  "\<forall>x. e_selection (pipeNormalizeInitialValue sample_collab x) = e_selection x"
  "\<forall>x. e_selection (normalizeEditor sample_collab x True) = e_selection x"
  "\<forall>x. e_children x = Some d \<longrightarrow> e_children (pipeNormalizeInitialValue sample_collab x) = Some d"
  "\<forall>x. e_children x = Some d \<longrightarrow> e_children (normalizeEditor sample_collab x True) = Some d"
  "\<forall>x. e_children x = None \<longrightarrow> e_children (normalizeEditor sample_collab x True) = None"
  by (simp_all add: sample_collab_def)

lemma sample_identity_frames:
  "\<forall>x ps. e_id (resolvePlugins sample_collab x ps) = e_id x
           \<and> e_key (resolvePlugins sample_collab x ps) = e_key x
           \<and> e_isFallback (resolvePlugins sample_collab x ps) = e_isFallback x"
  "\<forall>x. e_id (pipeNormalizeInitialValue sample_collab x) = e_id x
             \<and> e_key (pipeNormalizeInitialValue sample_collab x) = e_key x
             \<and> e_isFallback (pipeNormalizeInitialValue sample_collab x) = e_isFallback x"
  "\<forall>x. e_id (normalizeEditor sample_collab x True) = e_id x
             \<and> e_key (normalizeEditor sample_collab x True) = e_key x
             \<and> e_isFallback (normalizeEditor sample_collab x True) = e_isFallback x"
  by (simp_all add: sample_collab_def)

section \<open>The option accessors\<close>

text \<open>
  C1. Option indirection. For a plugin with a reactive store on which the field
  \<open>k\<close> is declared (the store's \<^verbatim>\<open>get[k]\<close> and \<^verbatim>\<open>set[k]\<close> are the field's getter and
  setter), \<^verbatim>\<open>setOption(plugin, k, v)\<close> returns normally and \<^verbatim>\<open>getOption(plugin, k)\<close>
  in the world it leaves returns \<open>v\<close>. For a plugin without a store, whose options
  are the plain bag \<open>b\<close>, \<^verbatim>\<open>setOption\<close> changes nothing and \<^verbatim>\<open>getOption\<close> returns the
  bag's own value of the field, in any world and so after any number of writes.
\<close>

theorem option_round_trip:
  "(getOptionsStore c e plugin = Some s \<and> s_get s k = Some (fieldGetter k)
      \<and> s_set s k = Some (fieldSetter k)
    \<longrightarrow> setOption c e plugin k v w
          = Inr (w\<lparr>stores := (stores w)(s_ref s := bag_put (stores w (s_ref s)) k v)\<rparr>)
        \<and> getOption c e plugin k []
            (w\<lparr>stores := (stores w)(s_ref s := bag_put (stores w (s_ref s)) k v)\<rparr>)
          = Inr (v, w\<lparr>stores := (stores w)(s_ref s := bag_put (stores w (s_ref s)) k v)\<rparr>))
   \<and> (getOptionsStore c e plugin = None \<and> p_options (getPlugin c e plugin) = Some b
    \<longrightarrow> setOption c e plugin k v w = Inr w
        \<and> getOption c e plugin k args w = Inr (bag_get b k, w))"
  by (simp add: setOption_def getOption_def fieldGetter_def fieldSetter_def bag_get_put_same)

theorem option_round_trip_witness:
  "setOption sample_collab sample_editor reactive_plugin ''open'' (JNum 5) sample_world
     = Inr (sample_world\<lparr>stores := (stores sample_world)(0 := [(''open'', JNum 5)])\<rparr>)
   \<and> getOption sample_collab sample_editor reactive_plugin ''open'' []
       (sample_world\<lparr>stores := (stores sample_world)(0 := [(''open'', JNum 5)])\<rparr>)
     = Inr (JNum 5, sample_world\<lparr>stores := (stores sample_world)(0 := [(''open'', JNum 5)])\<rparr>)
   \<and> setOption sample_collab sample_editor plain_plugin ''size'' (JNum 9) sample_world
     = Inr sample_world
   \<and> getOption sample_collab sample_editor plain_plugin ''size'' [] sample_world
     = Inr (JNum 3, sample_world)"
  using option_round_trip [of sample_collab sample_editor reactive_plugin sample_store
      "''open''" "JNum 5" sample_world "[]" "[]"]
    option_round_trip [of sample_collab sample_editor plain_plugin sample_store
      "''size''" "JNum 9" sample_world "[(''size'', JNum 3)]" "[]"]
  by (simp add: sample_lookup sample_store_def sample_world_def bag_get_def)

text \<open>
  C2. Soft failure. For a plugin with a reactive store that has no entry under
  \<open>k\<close>, neither in \<^verbatim>\<open>get\<close> nor in \<^verbatim>\<open>set\<close>: \<^verbatim>\<open>getOption\<close> returns \<^verbatim>\<open>undefined\<close> and
  \<^verbatim>\<open>setOption\<close> returns, both normally, each after one report with the code
  \<^verbatim>\<open>OPTION_UNDEFINED\<close> on the diagnostic channel, and the states of the stores
  are what they were.
\<close>

theorem undeclared_option_soft_failure:
  assumes "getOptionsStore c e plugin = Some s"
    and "s_get s k = None"
    and "s_set s k = None"
  shows "getOption c e plugin k args w
           = Inr (JUndefined,
               w\<lparr>diagnostics := diagnostics w
                 @ [(''editor.getOption: '' @ k @ '' option is not defined in plugin ''
                       @ p_key plugin @ ''.'', ''OPTION_UNDEFINED'')]\<rparr>)
         \<and> setOption c e plugin k v w
           = Inr (w\<lparr>diagnostics := diagnostics w
                 @ [(''editor.setOption: '' @ k @ '' option is not defined in plugin ''
                       @ p_key plugin @ ''.'', ''OPTION_UNDEFINED'')]\<rparr>)"
  using assms by (simp add: getOption_def setOption_def debug_error_def)

theorem undeclared_option_soft_failure_witness:
  "getOption sample_collab sample_editor reactive_plugin ''color'' [] sample_world
     = Inr (JUndefined,
         sample_world\<lparr>diagnostics :=
           [(''editor.getOption: color option is not defined in plugin toggle.'',
             ''OPTION_UNDEFINED'')]\<rparr>)
   \<and> setOption sample_collab sample_editor reactive_plugin ''color'' (JStr ''red'') sample_world
     = Inr (sample_world\<lparr>diagnostics :=
           [(''editor.setOption: color option is not defined in plugin toggle.'',
             ''OPTION_UNDEFINED'')]\<rparr>)"
  using undeclared_option_soft_failure [of sample_collab sample_editor reactive_plugin
      sample_store "''color''" "[]" sample_world "JStr ''red''"]
  by (simp add: sample_lookup sample_store_def sample_world_def)

text \<open>
  C7. \<^verbatim>\<open>setOptions\<close>. For a plugin with a reactive store whose \<^verbatim>\<open>set.mergeState\<close> is
  the bulk merge and whose \<^verbatim>\<open>set.state\<close> is the whole-state replacement: a patch
  that is a mapping is merged into the store's state, and a patch that is a
  function makes the state what the function returns for the current state.
  For a plugin without a store \<^verbatim>\<open>setOptions\<close> changes nothing, whatever the patch.
\<close>

theorem setOptions_merge_or_replace:
  "(getOptionsStore c e plugin = Some s \<and> s_set s ''mergeState'' = Some mergeState
      \<and> s_set s ''state'' = Some (setState ap)
    \<longrightarrow> setOptions c e plugin (JObj patch) w
          = Inr (w\<lparr>stores := (stores w)(s_ref s := bag_merge (stores w (s_ref s)) patch)\<rparr>)
        \<and> setOptions c e plugin (JFun f) w
          = Inr (w\<lparr>stores := (stores w)(s_ref s := ap f (stores w (s_ref s)))\<rparr>))
   \<and> (getOptionsStore c e plugin = None \<longrightarrow> setOptions c e plugin options w = Inr w)"
  by (simp add: setOptions_def mergeState_def setState_def)

theorem setOptions_merge_or_replace_witness:
  "setOptions sample_collab sample_editor reactive_plugin
       (JObj [(''open'', JBool True), (''size'', JNum 2)]) sample_world
     = Inr (sample_world\<lparr>stores := (stores sample_world)
              (0 := [(''open'', JBool True), (''size'', JNum 2)])\<rparr>)
   \<and> setOptions sample_collab sample_editor reactive_plugin (JFun 0) sample_world
     = Inr (sample_world\<lparr>stores := (stores sample_world)(0 := [(''open'', JBool True)])\<rparr>)
   \<and> setOptions sample_collab sample_editor plain_plugin (JObj [(''size'', JNum 9)]) sample_world
     = Inr sample_world"
  using setOptions_merge_or_replace [of sample_collab sample_editor reactive_plugin sample_store
      sample_apply "[(''open'', JBool True), (''size'', JNum 2)]" sample_world 0 "JNull"]
    setOptions_merge_or_replace [of sample_collab sample_editor plain_plugin sample_store
      sample_apply "[]" sample_world 0 "JObj [(''size'', JNum 9)]"]
  by (simp add: sample_lookup sample_store_def sample_world_def sample_apply_def)

text \<open>
  C9. \<^verbatim>\<open>getApi\<close> and \<^verbatim>\<open>getTransforms\<close> do not look at the plugin they are given:
  for every plugin the first is the editor's whole api namespace and the second
  its whole transforms namespace.
\<close>

theorem getApi_getTransforms_whole_namespace:
  "getApi e plugin = e_api e \<and> getTransforms e plugin = e_transforms e
   \<and> getApi e plugin = getApi e other \<and> getTransforms e plugin = getTransforms e other"
  by (simp add: getApi_def getTransforms_def)

section \<open>Construction\<close>

text \<open>
  C8. Identity. On the heap of editor objects \<^verbatim>\<open>withSlate\<close> returns the reference
  it was given, and the object under it is the constructed editor. The
  construction is the later steps applied to what \<^verbatim>\<open>resolvePlugins\<close> makes of the
  identity-assigned editor. Identity assignment takes the \<^verbatim>\<open>id\<close> option when it is
  neither \<^verbatim>\<open>undefined\<close> nor \<^verbatim>\<open>null\<close> and keeps the editor's id otherwise; it keeps
  a key that is neither \<^verbatim>\<open>undefined\<close> nor \<^verbatim>\<open>null\<close> and assigns the random draw
  otherwise; and it sets \<^verbatim>\<open>isFallback\<close> to \<^verbatim>\<open>false\<close>. The editor \<^verbatim>\<open>withSlate\<close>
  returns, and so the object under the reference, has that id, that key and
  \<^verbatim>\<open>isFallback\<close> \<^verbatim>\<open>false\<close>, provided plugin resolution and the two normalisation
  passes leave the three fields alone.
\<close>

theorem identity_assignment_in_place:
  "fst (withSlate_obj c rnd ref opts heap) = ref
   \<and> snd (withSlate_obj c rnd ref opts heap) ref = r_ed (withSlate c rnd (heap ref) opts)
   \<and> withSlate c rnd e opts
       = normalizeFull c opts (normalizeInitial c opts (seedSelection c opts
           (seedFallback c (seedValue c opts
             \<lparr>r_ed = resolvePlugins c (assignIdentity rnd opts e) [rootPluginInstance c opts],
              r_calls = assemblyCalls c opts @ [ResolvePlugins [rootPluginInstance c opts]]\<rparr>))))
   \<and> e_id (assignIdentity rnd opts e)
       = (if o_id opts = JUndefined \<or> o_id opts = JNull then e_id e else o_id opts)
   \<and> e_key (assignIdentity rnd opts e)
       = (if e_key e = JUndefined \<or> e_key e = JNull then rnd else e_key e)
   \<and> e_isFallback (assignIdentity rnd opts e) = Some False
   \<and> ((\<forall>x ps. e_id (resolvePlugins c x ps) = e_id x
                \<and> e_key (resolvePlugins c x ps) = e_key x
                \<and> e_isFallback (resolvePlugins c x ps) = e_isFallback x)
        \<and> (\<forall>x. e_id (pipeNormalizeInitialValue c x) = e_id x
                \<and> e_key (pipeNormalizeInitialValue c x) = e_key x
                \<and> e_isFallback (pipeNormalizeInitialValue c x) = e_isFallback x)
        \<and> (\<forall>x. e_id (normalizeEditor c x True) = e_id x
                \<and> e_key (normalizeEditor c x True) = e_key x
                \<and> e_isFallback (normalizeEditor c x True) = e_isFallback x)
      \<longrightarrow> e_id (r_ed (withSlate c rnd e opts))
            = (if o_id opts = JUndefined \<or> o_id opts = JNull then e_id e else o_id opts)
          \<and> e_key (r_ed (withSlate c rnd e opts))
            = (if e_key e = JUndefined \<or> e_key e = JNull then rnd else e_key e)
          \<and> e_isFallback (r_ed (withSlate c rnd e opts)) = Some False
          \<and> e_isFallback (snd (withSlate_obj c rnd ref opts heap) ref) = Some False)"
proof -
  have unfold: "withSlate c rnd e opts
       = normalizeFull c opts (normalizeInitial c opts (seedSelection c opts
           (seedFallback c (seedValue c opts
             \<lparr>r_ed = resolvePlugins c (assignIdentity rnd opts e) [rootPluginInstance c opts],
              r_calls = assemblyCalls c opts @ [ResolvePlugins [rootPluginInstance c opts]]\<rparr>))))"
    by (simp add: withSlate_def selected_def seeded_def resolved_def)
  have step: "e_id (assignIdentity rnd opts e)
       = (if o_id opts = JUndefined \<or> o_id opts = JNull then e_id e else o_id opts)
   \<and> e_key (assignIdentity rnd opts e)
       = (if e_key e = JUndefined \<or> e_key e = JNull then rnd else e_key e)
   \<and> e_isFallback (assignIdentity rnd opts e) = Some False" for e
    by (simp add: assignIdentity_def coalesce_def nullish_def)
  have final: "e_id (r_ed (withSlate c rnd e opts)) = e_id (assignIdentity rnd opts e)
          \<and> e_key (r_ed (withSlate c rnd e opts)) = e_key (assignIdentity rnd opts e)
          \<and> e_isFallback (r_ed (withSlate c rnd e opts))
              = e_isFallback (assignIdentity rnd opts e)"
    if res: "\<forall>x ps. e_id (resolvePlugins c x ps) = e_id x
                \<and> e_key (resolvePlugins c x ps) = e_key x
                \<and> e_isFallback (resolvePlugins c x ps) = e_isFallback x"
      and pipe: "\<forall>x. e_id (pipeNormalizeInitialValue c x) = e_id x
                \<and> e_key (pipeNormalizeInitialValue c x) = e_key x
                \<and> e_isFallback (pipeNormalizeInitialValue c x) = e_isFallback x"
      and norm: "\<forall>x. e_id (normalizeEditor c x True) = e_id x
                \<and> e_key (normalizeEditor c x True) = e_key x
                \<and> e_isFallback (normalizeEditor c x True) = e_isFallback x"
    for e
  proof -
    have "e_id (r_ed (resolved c rnd e opts)) = e_id (assignIdentity rnd opts e)
        \<and> e_key (r_ed (resolved c rnd e opts)) = e_key (assignIdentity rnd opts e)
        \<and> e_isFallback (r_ed (resolved c rnd e opts)) = e_isFallback (assignIdentity rnd opts e)"
      using res by (simp add: resolved_def)
    then show ?thesis
      unfolding withSlate_def
      using normalization_identity [OF pipe norm, of opts "selected c rnd e opts"]
        selected_identity [of c rnd e opts]
      by simp
  qed
  have obj: "snd (withSlate_obj c rnd ref opts heap) ref = r_ed (withSlate c rnd (heap ref) opts)"
    "fst (withSlate_obj c rnd ref opts heap) = ref"
    by (simp_all add: withSlate_obj_def)
  show ?thesis
    using unfold step [of e] step [of "heap ref"] final [of e] final [of "heap ref"] obj
    by (simp only:) blast
qed

theorem identity_assignment_in_place_witness:
  "fst (withSlate_obj sample_collab (JNum 0) 3 (sample_options\<lparr>o_id := JStr ''main''\<rparr>)
      (\<lambda>r. sample_editor)) = 3
   \<and> e_id (snd (withSlate_obj sample_collab (JNum 0) 3 (sample_options\<lparr>o_id := JStr ''main''\<rparr>)
      (\<lambda>r. sample_editor)) 3) = JStr ''main''
   \<and> e_isFallback (snd (withSlate_obj sample_collab (JNum 0) 3
      (sample_options\<lparr>o_id := JStr ''main''\<rparr>) (\<lambda>r. sample_editor)) 3) = Some False
   \<and> e_id (r_ed (withSlate sample_collab (JNum 0) sample_editor sample_options)) = JNum 1
   \<and> e_key (r_ed (withSlate sample_collab (JNum 0) sample_editor sample_options)) = JNum 0
   \<and> e_key (r_ed (withSlate sample_collab (JNum 0) bare_editor sample_options)) = JStr ''k''
   \<and> e_isFallback (r_ed (withSlate sample_collab (JNum 0) bare_editor sample_options))
     = Some False"
  using identity_assignment_in_place [of sample_collab "JNum 0" 3
      "sample_options\<lparr>o_id := JStr ''main''\<rparr>" "\<lambda>r. sample_editor" sample_editor,
      THEN conjunct1]
    identity_assignment_in_place [of sample_collab "JNum 0" 3
      "sample_options\<lparr>o_id := JStr ''main''\<rparr>" "\<lambda>r. sample_editor" sample_editor,
      THEN conjunct2, THEN conjunct1]
    identity_assignment_in_place [of sample_collab "JNum 0" 3
      "sample_options\<lparr>o_id := JStr ''main''\<rparr>" "\<lambda>r. sample_editor" sample_editor,
      THEN conjunct2, THEN conjunct2, THEN conjunct2]
    identity_assignment_in_place [of sample_collab "JNum 0" 3 sample_options
      "\<lambda>r. sample_editor" sample_editor, THEN conjunct2, THEN conjunct2, THEN conjunct2]
    identity_assignment_in_place [of sample_collab "JNum 0" 3 sample_options
      "\<lambda>r. sample_editor" bare_editor, THEN conjunct2, THEN conjunct2, THEN conjunct2]
    sample_identity_frames
  by (simp add: sample_options_def sample_editor_def bare_editor_def)

text \<open>
  C5, as amended. The configuration of the root has the key \<^verbatim>\<open>root\<close>, the priority
  10000, the core plugins (made from \<^verbatim>\<open>maxLength\<close> and the user's plugins) followed
  by the user's plugins as children, and the caller's root-level fields; the root
  descriptor is \<^verbatim>\<open>createSlatePlugin\<close> of it. Resolution is run exactly once: against
  that descriptor when no \<^verbatim>\<open>rootPlugin\<close> callback is given, and against what the
  callback returns for it when one is.
\<close>

theorem root_assembly:
  "filter isResolvePlugins (r_calls (withSlate c rnd e opts))
     = [ResolvePlugins [rootPluginInstance c opts]]
   \<and> (o_rootPlugin opts = None
        \<longrightarrow> rootPluginInstance c opts = createSlatePlugin c (rootConfig c opts))
   \<and> (o_rootPlugin opts = Some rootPlugin
        \<longrightarrow> rootPluginInstance c opts = rootPlugin (createSlatePlugin c (rootConfig c opts)))
   \<and> p_key (rootConfig c opts) = ''root''
   \<and> p_priority (rootConfig c opts) = Some 10000
   \<and> p_plugins (rootConfig c opts)
       = getCorePlugins c (o_maxLength opts) (o_plugins opts) @ o_plugins opts
   \<and> p_api (rootConfig c opts) = o_api opts
   \<and> p_transforms (rootConfig c opts) = o_transforms opts
   \<and> p_override (rootConfig c opts) = o_override opts
   \<and> p_inject (rootConfig c opts) = o_inject opts
   \<and> p_normalizeInitialValue (rootConfig c opts) = o_normalizeInitialValue opts
   \<and> p_options (rootConfig c opts) = o_options opts
   \<and> p_decorate (rootConfig c opts) = o_decorate opts
   \<and> p_extendEditor (rootConfig c opts) = o_extendEditor opts"
  by (simp add: withSlate_resolve_calls rootPluginInstance_def rootConfig_def)

theorem root_assembly_witness:
  "filter isResolvePlugins (r_calls (withSlate sample_collab (JNum 0) sample_editor
      (sample_options\<lparr>o_maxLength := Some 100, o_api := JObj [(''ping'', JFun 1)]\<rparr>)))
     = [ResolvePlugins
          [Plugin ''root'' (Some 10000) [core_plugin, plain_plugin]
             (JObj [(''ping'', JFun 1)]) JUndefined JUndefined JUndefined JUndefined None
             JUndefined JUndefined None]]
   \<and> filter isResolvePlugins (r_calls (withSlate sample_collab (JNum 0) sample_editor
      (sample_options\<lparr>o_rootPlugin := Some demote_root\<rparr>)))
     = [ResolvePlugins
          [demote_root
             (Plugin ''root'' (Some 10000) [core_plugin, plain_plugin] JUndefined JUndefined
                JUndefined JUndefined JUndefined None JUndefined JUndefined None)]]"
  using root_assembly [of sample_collab "JNum 0" sample_editor
      "sample_options\<lparr>o_maxLength := Some 100, o_api := JObj [(''ping'', JFun 1)]\<rparr>" id]
    root_assembly [of sample_collab "JNum 0" sample_editor
      "sample_options\<lparr>o_rootPlugin := Some demote_root\<rparr>" demote_root]
  by (simp add: sample_options_def sample_collab_def rootConfig_def)

text \<open>
  C5 as stated fails: with a \<^verbatim>\<open>rootPlugin\<close> callback that lowers the priority and
  drops the children, resolution is run against a descriptor of priority 1 that
  has no children, not against the root of priority 10000 that holds the core
  plugin and the user's plugin.
\<close>

theorem root_assembly_counterexample:
  "filter isResolvePlugins (r_calls (withSlate sample_collab (JNum 0) sample_editor
      (sample_options\<lparr>o_rootPlugin := Some demote_root\<rparr>)))
     = [ResolvePlugins
          [Plugin ''root'' (Some 1) [] JUndefined JUndefined JUndefined JUndefined JUndefined
             None JUndefined JUndefined None]]
   \<and> rootConfig sample_collab (sample_options\<lparr>o_rootPlugin := Some demote_root\<rparr>)
     = Plugin ''root'' (Some 10000) [core_plugin, plain_plugin] JUndefined JUndefined JUndefined
         JUndefined JUndefined None JUndefined JUndefined None"
  by (simp add: withSlate_resolve_calls rootPluginInstance_def rootConfig_def demote_root_def
      sample_options_def sample_collab_def)

text \<open>
  C4. Empty-content fallback. When the initial value is the empty node list, the
  \<^verbatim>\<open>create.value\<close> capability is called and the document \<open>d\<close> it returns is the
  seeded content. If \<open>d\<close> has a node and the two normalisation passes, which run
  after it, leave \<open>d\<close> as it is, then \<open>d\<close> is the document of the returned editor,
  which is not the empty list.
\<close>

theorem empty_value_fallback:
  assumes "o_value opts = Some (Tree [])"
    and "d = create_value c ((r_ed (resolved c rnd e opts))\<lparr>e_children := Some []\<rparr>)"
  shows "CreateValue \<in> set (r_calls (withSlate c rnd e opts))
         \<and> e_children (r_ed (seeded c rnd e opts)) = Some d
         \<and> (d \<noteq> []
              \<and> (\<forall>x. e_children x = Some d
                     \<longrightarrow> e_children (pipeNormalizeInitialValue c x) = Some d)
              \<and> (\<forall>x. e_children x = Some d
                     \<longrightarrow> e_children (normalizeEditor c x True) = Some d)
            \<longrightarrow> e_children (r_ed (withSlate c rnd e opts)) = Some d
                \<and> e_children (r_ed (withSlate c rnd e opts)) \<noteq> Some [])"
proof -
  have seeded: "e_children (r_ed (seeded c rnd e opts)) = Some d"
    using assms by (simp add: seeded_children_empty_tree)
  then have sel: "e_children (r_ed (selected c rnd e opts)) = Some d"
    by (simp add: selected_children)
  have final: "e_children (r_ed (withSlate c rnd e opts)) = Some d"
    if "\<forall>x. e_children x = Some d \<longrightarrow> e_children (pipeNormalizeInitialValue c x) = Some d"
      and "\<forall>x. e_children x = Some d \<longrightarrow> e_children (normalizeEditor c x True) = Some d"
    unfolding withSlate_def using sel that by (rule normalization_children)
  have "CreateValue \<in> set (r_calls (withSlate c rnd e opts))"
    using assms(1) by (simp add: withSlate_createValue_calls seedValue_def)
  with seeded final show ?thesis by simp
qed

theorem empty_value_fallback_witness:
  "CreateValue \<in> set (r_calls (withSlate sample_collab (JNum 0) bare_editor
      (sample_options\<lparr>o_value := Some (Tree [])\<rparr>)))
   \<and> e_children (r_ed (withSlate sample_collab (JNum 0) bare_editor
      (sample_options\<lparr>o_value := Some (Tree [])\<rparr>))) = Some [Element ''p'' [Text []]]"
  using empty_value_fallback [of
      "sample_options\<lparr>o_value := Some (Tree [])\<rparr>" "[Element ''p'' [Text []]]"
      sample_collab "JNum 0" bare_editor]
      sample_frames(3,4) [of "[Element ''p'' [Text []]]"]
  by (simp add: sample_options_def sample_collab_def)

text \<open>
  C10. The fallback is triggered exactly when, after the initial value is
  installed, the editor's children are present and are the empty list. So with no
  initial value and children that are \<^verbatim>\<open>undefined\<close> after plugin resolution,
  \<^verbatim>\<open>create.value\<close> is not called and the seeded editor has no children; it is
  returned without children if the full normalisation, when it is asked for,
  gives no children to an editor that has none.
\<close>

theorem fallback_only_for_empty_list:
  "(CreateValue \<in> set (r_calls (withSlate c rnd e opts))
      \<longleftrightarrow> e_children (r_ed (seedValue c opts (resolved c rnd e opts))) = Some [])
   \<and> (o_value opts = None \<and> e_children (r_ed (resolved c rnd e opts)) = None
        \<and> (\<forall>x. e_children x = None \<longrightarrow> e_children (normalizeEditor c x True) = None)
      \<longrightarrow> CreateValue \<notin> set (r_calls (withSlate c rnd e opts))
          \<and> e_children (r_ed (seeded c rnd e opts)) = None
          \<and> e_children (r_ed (withSlate c rnd e opts)) = None)"
proof -
  have "e_children (r_ed (withSlate c rnd e opts)) = None"
    if "o_value opts = None" "e_children (r_ed (resolved c rnd e opts)) = None"
      "\<forall>x. e_children x = None \<longrightarrow> e_children (normalizeEditor c x True) = None"
  proof -
    have "e_children (r_ed (seeded c rnd e opts)) = None"
      using that(1,2) by (simp add: seeded_def seedFallback_def seedValue_def)
    then have "e_children (r_ed (selected c rnd e opts)) = None"
      by (simp add: selected_children)
    then show ?thesis
      using that(1,3) by (simp add: withSlate_def normalizeFull_def normalizeInitial_def)
  qed
  then show ?thesis
    by (simp add: withSlate_createValue_calls seeded_def seedFallback_def seedValue_def)
qed

theorem fallback_only_for_empty_list_witness:
  "CreateValue \<notin> set (r_calls (withSlate sample_collab (JNum 0) bare_editor
      (sample_options\<lparr>o_shouldNormalizeEditor := True\<rparr>)))
   \<and> e_children (r_ed (withSlate sample_collab (JNum 0) bare_editor
      (sample_options\<lparr>o_shouldNormalizeEditor := True\<rparr>))) = None"
  using fallback_only_for_empty_list [of sample_collab "JNum 0" bare_editor
      "sample_options\<lparr>o_shouldNormalizeEditor := True\<rparr>"] sample_frames(5)
  by (simp add: sample_options_def sample_collab_def bare_editor_def resolved_def
      seedValue_def assignIdentity_def)

text \<open>
  C3. Selection seeding. Once content and selection are seeded, an explicit
  selection is the editor's selection, whatever \<^verbatim>\<open>autoSelect\<close> is; without one,
  \<^verbatim>\<open>autoSelect: 'start'\<close> gives the selection collapsed at the start point of the
  seeded document, \<^verbatim>\<open>'end'\<close> and \<^verbatim>\<open>true\<close> give the one collapsed at its end point,
  and with \<^verbatim>\<open>autoSelect\<close> absent or \<^verbatim>\<open>false\<close> the selection is the one plugin
  resolution left. That selection is the returned editor's, provided the two
  normalisation passes, which run after it, leave the selection alone.
\<close>

theorem selection_seeding:
  "e_selection (r_ed (selected c rnd e opts)) =
    (case o_selection opts of
       Some selection \<Rightarrow> Some selection
     | None \<Rightarrow>
         (case o_autoSelect opts of
            Some AutoStart \<Rightarrow>
              Some \<lparr>anchor = getStartPoint c (r_ed (seeded c rnd e opts)) [],
                    focus = getStartPoint c (r_ed (seeded c rnd e opts)) []\<rparr>
          | Some AutoEnd \<Rightarrow>
              Some \<lparr>anchor = getEndPoint c (r_ed (seeded c rnd e opts)) [],
                    focus = getEndPoint c (r_ed (seeded c rnd e opts)) []\<rparr>
          | Some (AutoBool True) \<Rightarrow>
              Some \<lparr>anchor = getEndPoint c (r_ed (seeded c rnd e opts)) [],
                    focus = getEndPoint c (r_ed (seeded c rnd e opts)) []\<rparr>
          | Some (AutoBool False) \<Rightarrow> e_selection (r_ed (resolved c rnd e opts))
          | None \<Rightarrow> e_selection (r_ed (resolved c rnd e opts))))
   \<and> ((\<forall>x. e_selection (pipeNormalizeInitialValue c x) = e_selection x)
        \<and> (\<forall>x. e_selection (normalizeEditor c x True) = e_selection x)
      \<longrightarrow> e_selection (r_ed (withSlate c rnd e opts))
            = e_selection (r_ed (selected c rnd e opts)))"
proof -
  have "e_selection (r_ed (selected c rnd e opts)) =
    (case o_selection opts of
       Some selection \<Rightarrow> Some selection
     | None \<Rightarrow>
         (case o_autoSelect opts of
            Some AutoStart \<Rightarrow>
              Some \<lparr>anchor = getStartPoint c (r_ed (seeded c rnd e opts)) [],
                    focus = getStartPoint c (r_ed (seeded c rnd e opts)) []\<rparr>
          | Some AutoEnd \<Rightarrow>
              Some \<lparr>anchor = getEndPoint c (r_ed (seeded c rnd e opts)) [],
                    focus = getEndPoint c (r_ed (seeded c rnd e opts)) []\<rparr>
          | Some (AutoBool True) \<Rightarrow>
              Some \<lparr>anchor = getEndPoint c (r_ed (seeded c rnd e opts)) [],
                    focus = getEndPoint c (r_ed (seeded c rnd e opts)) []\<rparr>
          | Some (AutoBool False) \<Rightarrow> e_selection (r_ed (resolved c rnd e opts))
          | None \<Rightarrow> e_selection (r_ed (resolved c rnd e opts))))"
    unfolding selected_def selected_selection seeded_selection by (rule refl)
  then show ?thesis
    using normalization_selection [of c rnd e opts] by blast
qed

theorem selection_seeding_witness:
  "e_selection (r_ed (withSlate sample_collab (JNum 0) sample_editor
      (sample_options\<lparr>o_autoSelect := Some AutoStart\<rparr>)))
     = Some \<lparr>anchor = \<lparr>path = [0, 0], offset = 0\<rparr>, focus = \<lparr>path = [0, 0], offset = 0\<rparr>\<rparr>
   \<and> e_selection (r_ed (withSlate sample_collab (JNum 0) sample_editor
      (sample_options\<lparr>o_autoSelect := Some (AutoBool True),
         o_value := Some (Tree [Element ''p'' [Text ''a''], Element ''p'' [Text ''b'']])\<rparr>)))
     = Some \<lparr>anchor = \<lparr>path = [1, 0], offset = 0\<rparr>, focus = \<lparr>path = [1, 0], offset = 0\<rparr>\<rparr>
   \<and> e_selection (r_ed (withSlate sample_collab (JNum 0) sample_editor
      (sample_options\<lparr>o_autoSelect := Some AutoEnd,
         o_selection := Some \<lparr>anchor = \<lparr>path = [0, 0], offset = 0\<rparr>,
                               focus = \<lparr>path = [0, 0], offset = 1\<rparr>\<rparr>\<rparr>)))
     = Some \<lparr>anchor = \<lparr>path = [0, 0], offset = 0\<rparr>, focus = \<lparr>path = [0, 0], offset = 1\<rparr>\<rparr>
   \<and> e_selection (r_ed (withSlate sample_collab (JNum 0) sample_editor sample_options)) = None"
  using selection_seeding [of sample_collab "JNum 0" sample_editor
      "sample_options\<lparr>o_autoSelect := Some AutoStart\<rparr>"]
    selection_seeding [of sample_collab "JNum 0" sample_editor
      "sample_options\<lparr>o_autoSelect := Some (AutoBool True),
         o_value := Some (Tree [Element ''p'' [Text ''a''], Element ''p'' [Text ''b'']])\<rparr>"]
    selection_seeding [of sample_collab "JNum 0" sample_editor
      "sample_options\<lparr>o_autoSelect := Some AutoEnd,
         o_selection := Some \<lparr>anchor = \<lparr>path = [0, 0], offset = 0\<rparr>,
                               focus = \<lparr>path = [0, 0], offset = 1\<rparr>\<rparr>\<rparr>"]
    selection_seeding [of sample_collab "JNum 0" sample_editor sample_options]
    sample_frames(1,2)
  by (simp add: sample_options_def sample_collab_def sample_editor_def
      seeded_def seedFallback_def seedValue_def resolved_def assignIdentity_def)

text \<open>
  C6. The claim has the pass \<^verbatim>\<open>pipeNormalizeInitialValue\<close> run, after content and
  selection seeding, whenever an initial value was supplied. The code misses the
  empty markup string: line 197 takes it for a supplied string and deserialises
  it into the document, line 213 tests its truthiness and skips the pass. The
  empty tree and a markup string that is not empty do get the pass.
\<close>

theorem empty_markup_string_not_normalized:
  "HtmlDeserialize [] \<in> set (r_calls (withSlate sample_collab (JNum 0) sample_editor
      (sample_options\<lparr>o_value := Some (MarkupString [])\<rparr>)))
   \<and> PipeNormalizeInitialValue \<notin> set (r_calls (withSlate sample_collab (JNum 0) sample_editor
      (sample_options\<lparr>o_value := Some (MarkupString [])\<rparr>)))
   \<and> PipeNormalizeInitialValue \<in> set (r_calls (withSlate sample_collab (JNum 0) sample_editor
      (sample_options\<lparr>o_value := Some (Tree [])\<rparr>)))
   \<and> PipeNormalizeInitialValue \<in> set (r_calls (withSlate sample_collab (JNum 0) sample_editor
      (sample_options\<lparr>o_value := Some (MarkupString ''hi'')\<rparr>)))"
  by (simp add: withSlate_def selected_def seeded_def step_calls assemblyCalls_def
      sample_options_def)

end
